theory Spec2Isabelle
  imports Main
begin

section \<open>JavaScript values\<close>

text \<open>
  The library reads query parameters, configuration fields and JSON bodies without
  checking their types, and branches on their truthiness. Values are therefore modelled
  as a datatype of JavaScript values. Strings are lists of bytes (their UTF-8 encoding).
  \<open>JNum n\<close> stands for the number \<open>n\<close> when \<open>n\<close> is a safe integer (of magnitude below
  \<open>2 ^ 53\<close>), as the numeric ids of the providers are; fractions and larger numbers,
  which JavaScript rounds and prints with an exponent, are not represented. An object is
  the list of its own properties (the first entry for a key is the one that is read).
\<close>

datatype jsval =
    JUndefined
  | JNull
  | JBool bool
  | JNum int
  | JStr string
  | JArr "jsval list"
  | JObj "(string \<times> jsval) list"

text \<open>Truthiness, as used by \<^verbatim>\<open>if (x)\<close>, \<^verbatim>\<open>!x\<close> and \<^verbatim>\<open>x || y\<close>.\<close>

fun truthy :: "jsval \<Rightarrow> bool" where
  "truthy JUndefined = False"
| "truthy JNull = False"
| "truthy (JBool b) = b"
| "truthy (JNum n) = (n \<noteq> 0)"
| "truthy (JStr s) = (s \<noteq> [])"
| "truthy (JArr _) = True"
| "truthy (JObj _) = True"

text \<open>\<^verbatim>\<open>a || b\<close> on values.\<close>

definition js_or :: "jsval \<Rightarrow> jsval \<Rightarrow> jsval" where
  "js_or a b = (if truthy a then a else b)"

fun nullish :: "jsval \<Rightarrow> bool" where
  "nullish JUndefined = True"
| "nullish JNull = True"
| "nullish _ = False"


text \<open>
  Property read \<^verbatim>\<open>v.k\<close> on a value that is neither null nor undefined, for the property
  names the library uses (none of them is defined on a prototype): an object yields its
  own property or undefined, every other value yields undefined.
\<close>

fun get :: "jsval \<Rightarrow> string \<Rightarrow> jsval" where
  "get (JObj kvs) k = (case map_of kvs k of Some v \<Rightarrow> v | None \<Rightarrow> JUndefined)"
| "get _ k = JUndefined"

fun join :: "string \<Rightarrow> string list \<Rightarrow> string" where
  "join sep [] = []"
| "join sep [x] = x"
| "join sep (x # y # ys) = x @ sep @ join sep (y # ys)"

definition digit_char :: "nat \<Rightarrow> char" where
  "digit_char n = ''0123456789'' ! n"

fun dec :: "nat \<Rightarrow> string" where
  "dec n = (if n < 10 then [digit_char n] else dec (n div 10) @ [digit_char (n mod 10)])"

declare dec.simps [simp del]

text \<open>
  \<^verbatim>\<open>String(v)\<close>, also the conversion a template literal applies. A safe integer is
  printed as its decimal digits.
\<close>

fun js_String :: "jsval \<Rightarrow> string" where
  "js_String JUndefined = ''undefined''"
| "js_String JNull = ''null''"
| "js_String (JBool b) = (if b then ''true'' else ''false'')"
| "js_String (JNum n) = (if n < 0 then CHR ''-'' # dec (nat (- n)) else dec (nat n))"
| "js_String (JStr s) = s"
| "js_String (JArr xs) = join '','' (map (\<lambda>v. if nullish v then [] else js_String v) xs)"
| "js_String (JObj _) = ''[object Object]''"

text \<open>\<^verbatim>\<open>s.startsWith(p)\<close> and \<^verbatim>\<open>s.includes(p)\<close> on strings.\<close>

fun startsWith :: "string \<Rightarrow> string \<Rightarrow> bool" where
  "startsWith s [] = True"
| "startsWith [] (p # ps) = False"
| "startsWith (c # cs) (p # ps) = (c = p \<and> startsWith cs ps)"

fun str_includes :: "string \<Rightarrow> string \<Rightarrow> bool" where
  "str_includes [] p = (p = [])"
| "str_includes (c # cs) p = (startsWith (c # cs) p \<or> str_includes cs p)"

section \<open>Errors (utils/errors.js)\<close>

record oauth_error =
  message :: string
  provider :: "string option"
  code :: jsval

text \<open>
  What a call can throw: an \<^verbatim>\<open>OAuthError\<close>, or one of the platform's own exceptions.
\<close>

datatype js_error =
    OAuthError oauth_error
  | TypeError
  | SyntaxError
  | RangeError

text \<open>
  The constructor of \<^verbatim>\<open>OAuthError\<close>: \<^verbatim>\<open>provider || null\<close> and \<^verbatim>\<open>code || 'OAUTH_ERROR'\<close>.
  A provider is a string or null, so it is an option; the empty string is falsy.
\<close>

definition new_OAuthError :: "jsval \<Rightarrow> string option \<Rightarrow> jsval \<Rightarrow> oauth_error" where
  "new_OAuthError msg prov c =
     \<lparr> message = (if msg = JUndefined then [] else js_String msg),
       provider = (case prov of None \<Rightarrow> None | Some p \<Rightarrow> if p = [] then None else Some p),
       code = js_or c (JStr ''OAUTH_ERROR'') \<rparr>"

section \<open>State validation (utils/state.js)\<close>

text \<open>
  \<^verbatim>\<open>crypto.timingSafeEqual\<close> is the platform's: it throws on buffers of different length
  and otherwise accumulates the differences of all byte pairs, without leaving the loop
  early. The second component counts the byte pairs it has examined.
\<close>

definition timingSafeEqual_steps :: "string \<Rightarrow> string \<Rightarrow> js_error + (bool \<times> nat)" where
  "timingSafeEqual_steps a b =
     (if length a \<noteq> length b then Inl RangeError
      else Inr (fold (\<lambda>(x, y) (same, n). (same \<and> x = y, Suc n)) (zip a b) (True, 0)))"

definition em_dash :: string where
  "em_dash = [CHR 0xE2, CHR 0x80, CHR 0x94]"

text \<open>
  \<^verbatim>\<open>validateState\<close>, with the cost of the call next to its outcome: the number of byte
  pairs of the two buffers that have been compared when it returns or throws. The checks
  for a missing value and for the lengths compare no bytes; the bytes are compared by
  \<^verbatim>\<open>crypto.timingSafeEqual\<close> alone.
\<close>

definition validateState_steps :: "jsval \<Rightarrow> jsval \<Rightarrow> (js_error + unit) \<times> nat" where
  "validateState_steps expected received =
     (if \<not> truthy expected \<or> \<not> truthy received then
        (Inl (OAuthError (new_OAuthError
           (JStr (''State parameter missing '' @ em_dash @ '' potential CSRF attack''))
           None (JStr ''STATE_MISSING''))), 0)
      else
        let expectedBuf = js_String expected;
            receivedBuf = js_String received
        in if length expectedBuf \<noteq> length receivedBuf then
             (Inl (OAuthError (new_OAuthError
                (JStr (''State mismatch '' @ em_dash @ '' potential CSRF attack''))
                None (JStr ''STATE_MISMATCH''))), 0)
           else
             (case timingSafeEqual_steps expectedBuf receivedBuf of
                Inl e \<Rightarrow> (Inl e, 0)
              | Inr (eq, n) \<Rightarrow>
                  if \<not> eq then
                    (Inl (OAuthError (new_OAuthError
                       (JStr (''State mismatch '' @ em_dash @ '' potential CSRF attack''))
                       None (JStr ''STATE_MISMATCH''))), n)
                  else (Inr (), n)))"

text \<open>The outcome of \<^verbatim>\<open>validateState\<close> alone.\<close>

definition validateState :: "jsval \<Rightarrow> jsval \<Rightarrow> js_error + unit" where
  "validateState expected received = fst (validateState_steps expected received)"

section \<open>The platform\<close>

text \<open>
  \<^verbatim>\<open>fetch\<close>, \<^verbatim>\<open>JSON.parse\<close>, \<^verbatim>\<open>URLSearchParams\<close> and \<^verbatim>\<open>URL\<close> belong to the platform. A
  network call is recorded with its arguments; what the network answers is given by a
  function of the call. A response carries what the platform's parsers make of its body:
  \<open>body_json\<close> is the result of \<^verbatim>\<open>JSON.parse\<close> on the text (\<open>None\<close> when it throws),
  \<open>body_form\<close> the entries of \<^verbatim>\<open>new URLSearchParams(text)\<close>.
\<close>

record fetch_call =
  fc_url :: string
  fc_method :: "string option"
  fc_headers :: "(string \<times> string) list"
  fc_body :: "string option"

record response =
  ok :: bool
  status :: nat
  content_type :: "string option"
  body_json :: "jsval option"
  body_form :: "(string \<times> string) list"

datatype fetch_result = FetchThrows string | FetchResponse response

record platform =
  fetch :: "fetch_call \<Rightarrow> fetch_result"
  newURL :: "string \<Rightarrow> string \<Rightarrow> (string \<times> string) list option"

text \<open>
  An asynchronous operation yields the network calls it has made, in order, and either
  the error it throws or its value.
\<close>

type_synonym 'a io = "fetch_call list \<times> (js_error + 'a)"

subsection \<open>URLSearchParams\<close>

type_synonym search_params = "(string \<times> string) list"

definition usp_get :: "search_params \<Rightarrow> string \<Rightarrow> jsval" where
  "usp_get sp k = (case map_of sp k of Some v \<Rightarrow> JStr v | None \<Rightarrow> JNull)"

fun usp_set :: "search_params \<Rightarrow> string \<Rightarrow> string \<Rightarrow> search_params" where
  "usp_set [] k v = [(k, v)]"
| "usp_set ((k', v') # ps) k v =
     (if k' = k then (k, v) # filter (\<lambda>(a, _). a \<noteq> k) ps else (k', v') # usp_set ps k v)"

definition hex_digit :: "nat \<Rightarrow> char" where
  "hex_digit n = ''0123456789ABCDEF'' ! n"

definition urlencode_char :: "char \<Rightarrow> string" where
  "urlencode_char c =
     (let n = (of_char c :: nat)
      in if c = CHR '' '' then ''+''
         else if (48 \<le> n \<and> n \<le> 57) \<or> (65 \<le> n \<and> n \<le> 90) \<or> (97 \<le> n \<and> n \<le> 122)
                 \<or> c = CHR ''*'' \<or> c = CHR ''-'' \<or> c = CHR ''.'' \<or> c = CHR ''_''
         then [c]
         else [CHR ''%'', hex_digit (n div 16), hex_digit (n mod 16)])"

definition urlencode :: "string \<Rightarrow> string" where
  "urlencode s = concat (map urlencode_char s)"

definition usp_toString :: "search_params \<Rightarrow> string" where
  "usp_toString sp = join ''&'' (map (\<lambda>(k, v). urlencode k @ ''='' @ urlencode v) sp)"

text \<open>
  \<^verbatim>\<open>Object.fromEntries\<close> of search parameters: the keys keep the order in which they
  first occur, and a later entry for a key replaces the value of an earlier one.
\<close>

fun obj_set :: "(string \<times> jsval) list \<Rightarrow> string \<Rightarrow> jsval \<Rightarrow> (string \<times> jsval) list" where
  "obj_set [] k v = [(k, v)]"
| "obj_set ((k', v') # kvs) k v =
     (if k' = k then (k, v) # kvs else (k', v') # obj_set kvs k v)"

definition fromEntries :: "search_params \<Rightarrow> jsval" where
  "fromEntries sp = JObj (fold (\<lambda>(k, v) obj. obj_set obj k (JStr v)) sp [])"

section \<open>The request helper (utils/http.js)\<close>

record req_options =
  ro_method :: "string option"
  ro_headers :: "(string \<times> string) list"
  ro_body :: "string option"

text \<open>\<^verbatim>\<open>{ 'User-Agent': 'unioauth', ...options.headers }\<close>\<close>

definition merge_headers :: "(string \<times> string) list \<Rightarrow> (string \<times> string) list" where
  "merge_headers hs =
     (case map_of hs ''User-Agent'' of
        None \<Rightarrow> (''User-Agent'', ''unioauth'') # hs
      | Some v \<Rightarrow> (''User-Agent'', v) # filter (\<lambda>(k, _). k \<noteq> ''User-Agent'') hs)"

definition parse_body :: "response \<Rightarrow> js_error + jsval" where
  "parse_body r =
     (let contentType = (case content_type r of Some c \<Rightarrow> c | None \<Rightarrow> [])
      in if str_includes contentType ''application/json'' then
           (case body_json r of None \<Rightarrow> Inl SyntaxError | Some v \<Rightarrow> Inr v)
         else
           (case body_json r of Some v \<Rightarrow> Inr v | None \<Rightarrow> Inr (fromEntries (body_form r))))"

definition request :: "platform \<Rightarrow> string \<Rightarrow> req_options \<Rightarrow> jsval io" where
  "request pf url options =
     (let call = \<lparr> fc_url = url, fc_method = ro_method options,
                   fc_headers = merge_headers (ro_headers options),
                   fc_body = ro_body options \<rparr>
      in ([call],
          (case fetch pf call of
             FetchThrows msg \<Rightarrow>
               Inl (OAuthError (new_OAuthError
                 (JStr (''Network request to '' @ url @ '' failed: '' @ msg))
                 None (JStr ''NETWORK_ERROR'')))
           | FetchResponse r \<Rightarrow>
               (case parse_body r of
                  Inl e \<Rightarrow> Inl e
                | Inr data \<Rightarrow>
                    if \<not> ok r then
                      (if nullish data then Inl TypeError
                       else Inl (OAuthError (new_OAuthError
                         (js_or (get data ''error_description'')
                            (js_or (get data ''message'')
                               (js_or (get data ''error'')
                                  (JStr (''HTTP '' @ dec (status r))))))
                         None (JStr ''HTTP_ERROR''))))
                    else Inr data))))"

section \<open>Provider variants\<close>

datatype variant = GitHub | Google | Discord

fun name :: "variant \<Rightarrow> string" where
  "name GitHub = ''github''"
| "name Google = ''google''"
| "name Discord = ''discord''"

fun authorizationUrl :: "variant \<Rightarrow> string" where
  "authorizationUrl GitHub = ''https://github.com/login/oauth/authorize''"
| "authorizationUrl Google = ''https://accounts.google.com/o/oauth2/v2/auth''"
| "authorizationUrl Discord = ''https://discord.com/api/oauth2/authorize''"

fun tokenUrl :: "variant \<Rightarrow> string" where
  "tokenUrl GitHub = ''https://github.com/login/oauth/access_token''"
| "tokenUrl Google = ''https://oauth2.googleapis.com/token''"
| "tokenUrl Discord = ''https://discord.com/api/oauth2/token''"

fun defaultScopes :: "variant \<Rightarrow> string list" where
  "defaultScopes GitHub = [''read:user'', ''user:email'']"
| "defaultScopes Google = [''openid'', ''email'', ''profile'']"
| "defaultScopes Discord = [''identify'', ''email'']"

text \<open>
  The normalized user. \<^verbatim>\<open>fetchUser\<close> returns it without \<open>accessToken\<close> (undefined);
  \<^verbatim>\<open>handleCallback\<close> sets that field.
\<close>

record user =
  u_provider :: string
  u_id :: jsval
  u_email :: jsval
  u_name :: jsval
  u_avatar :: jsval
  u_raw :: jsval
  u_accessToken :: jsval

definition bearer :: "jsval \<Rightarrow> (string \<times> string)" where
  "bearer accessToken = (''Authorization'', ''Bearer '' @ js_String accessToken)"

subsection \<open>Google (providers/google.js)\<close>

text \<open>The profile request of \<^verbatim>\<open>fetchUser\<close>.\<close>

definition google_profile_request :: "platform \<Rightarrow> jsval \<Rightarrow> jsval io" where
  "google_profile_request pf accessToken =
     request pf ''https://www.googleapis.com/oauth2/v2/userinfo''
       \<lparr> ro_method = None, ro_headers = [bearer accessToken], ro_body = None \<rparr>"

definition fetchUser_google :: "platform \<Rightarrow> jsval \<Rightarrow> user io" where
  "fetchUser_google pf accessToken =
     (case google_profile_request pf accessToken of
        (t, Inl e) \<Rightarrow> (t, Inl e)
      | (t, Inr profile) \<Rightarrow>
          if nullish profile then (t, Inl TypeError)
          else (t, Inr \<lparr> u_provider = ''google'',
                         u_id = JStr (js_String (get profile ''id'')),
                         u_email = js_or (get profile ''email'') JNull,
                         u_name = js_or (get profile ''name'') JNull,
                         u_avatar = js_or (get profile ''picture'') JNull,
                         u_raw = profile,
                         u_accessToken = JUndefined \<rparr>))"

subsection \<open>Discord (providers/discord.js)\<close>

text \<open>The avatar computed from the profile; \<^verbatim>\<open>startsWith\<close> exists on strings only.\<close>

definition discord_avatar :: "jsval \<Rightarrow> js_error + jsval" where
  "discord_avatar profile =
     (let hash = get profile ''avatar''
      in if truthy hash then
           (case hash of
              JStr h \<Rightarrow>
                (let ext = (if startsWith h ''a_'' then ''gif'' else ''png'')
                 in Inr (JStr (''https://cdn.discordapp.com/avatars/''
                               @ js_String (get profile ''id'') @ ''/'' @ h @ ''.'' @ ext)))
            | _ \<Rightarrow> Inl TypeError)
         else Inr JNull)"

definition discord_profile_request :: "platform \<Rightarrow> jsval \<Rightarrow> jsval io" where
  "discord_profile_request pf accessToken =
     request pf ''https://discord.com/api/v10/users/@me''
       \<lparr> ro_method = None, ro_headers = [bearer accessToken], ro_body = None \<rparr>"

definition fetchUser_discord :: "platform \<Rightarrow> jsval \<Rightarrow> user io" where
  "fetchUser_discord pf accessToken =
     (case discord_profile_request pf accessToken of
        (t, Inl e) \<Rightarrow> (t, Inl e)
      | (t, Inr profile) \<Rightarrow>
          if nullish profile then (t, Inl TypeError)
          else
            (case discord_avatar profile of
               Inl e \<Rightarrow> (t, Inl e)
             | Inr avatar \<Rightarrow>
                 (t, Inr \<lparr> u_provider = ''discord'',
                           u_id = JStr (js_String (get profile ''id'')),
                           u_email = js_or (get profile ''email'') JNull,
                           u_name = js_or (get profile ''global_name'') (get profile ''username''),
                           u_avatar = avatar,
                           u_raw = profile,
                           u_accessToken = JUndefined \<rparr>)))"

subsection \<open>GitHub (providers/github.js)\<close>

text \<open>\<^verbatim>\<open>xs.find(p)\<close>: the first element the predicate accepts, or undefined.\<close>

fun js_find :: "(jsval \<Rightarrow> js_error + bool) \<Rightarrow> jsval list \<Rightarrow> js_error + jsval" where
  "js_find p [] = Inr JUndefined"
| "js_find p (x # xs) =
     (case p x of Inl e \<Rightarrow> Inl e | Inr b \<Rightarrow> if b then Inr x else js_find p xs)"

text \<open>The two predicates \<^verbatim>\<open>e.primary && e.verified\<close> and \<^verbatim>\<open>e.verified\<close>.\<close>

definition primary_verified :: "jsval \<Rightarrow> js_error + bool" where
  "primary_verified e =
     (if nullish e then Inl TypeError
      else Inr (truthy (get e ''primary'') \<and> truthy (get e ''verified'')))"

definition verified :: "jsval \<Rightarrow> js_error + bool" where
  "verified e = (if nullish e then Inl TypeError else Inr (truthy (get e ''verified'')))"

text \<open>\<^verbatim>\<open>x?.email\<close>\<close>

definition opt_email :: "jsval \<Rightarrow> jsval" where
  "opt_email x = (if nullish x then JUndefined else get x ''email'')"

text \<open>
  The part of the \<^verbatim>\<open>try\<close> block after the request: \<^verbatim>\<open>find\<close> is a method of arrays
  only, and the second \<^verbatim>\<open>find\<close> runs only when the first operand of \<^verbatim>\<open>||\<close> is falsy.
\<close>

definition select_email :: "jsval \<Rightarrow> js_error + jsval" where
  "select_email emails =
     (case emails of
        JArr es \<Rightarrow>
          (case js_find primary_verified es of
             Inl e \<Rightarrow> Inl e
           | Inr primary \<Rightarrow>
               if truthy (opt_email primary) then Inr (opt_email primary)
               else
                 (case js_find verified es of
                    Inl e \<Rightarrow> Inl e
                  | Inr v \<Rightarrow> Inr (js_or (opt_email v) JNull)))
      | _ \<Rightarrow> Inl TypeError)"

definition github_headers :: "jsval \<Rightarrow> (string \<times> string) list" where
  "github_headers accessToken = [bearer accessToken, (''Accept'', ''application/vnd.github+json'')]"

definition github_profile_request :: "platform \<Rightarrow> jsval \<Rightarrow> jsval io" where
  "github_profile_request pf accessToken =
     request pf ''https://api.github.com/user''
       \<lparr> ro_method = None, ro_headers = github_headers accessToken, ro_body = None \<rparr>"

definition github_emails_request :: "platform \<Rightarrow> jsval \<Rightarrow> jsval io" where
  "github_emails_request pf accessToken =
     request pf ''https://api.github.com/user/emails''
       \<lparr> ro_method = None, ro_headers = github_headers accessToken, ro_body = None \<rparr>"

definition fetchUser_github :: "platform \<Rightarrow> jsval \<Rightarrow> user io" where
  "fetchUser_github pf accessToken =
     (case github_profile_request pf accessToken of
           (t, Inl e) \<Rightarrow> (t, Inl e)
         | (t, Inr profile) \<Rightarrow>
             if nullish profile then (t, Inl TypeError)
             else
               (let (t', email) =
                      (if \<not> truthy (get profile ''email'') then
                         (case github_emails_request pf accessToken of
                            (t2, Inl e) \<Rightarrow> (t @ t2, JNull)
                          | (t2, Inr emails) \<Rightarrow>
                              (case select_email emails of
                                 Inl e \<Rightarrow> (t @ t2, JNull)
                               | Inr a \<Rightarrow> (t @ t2, a)))
                       else (t, get profile ''email''))
                in (t', Inr \<lparr> u_provider = ''github'',
                              u_id = JStr (js_String (get profile ''id'')),
                              u_email = email,
                              u_name = js_or (get profile ''name'') (get profile ''login''),
                              u_avatar = js_or (get profile ''avatar_url'') JNull,
                              u_raw = profile,
                              u_accessToken = JUndefined \<rparr>)))"

fun fetchUser :: "platform \<Rightarrow> variant \<Rightarrow> jsval \<Rightarrow> user io" where
  "fetchUser pf GitHub accessToken = fetchUser_github pf accessToken"
| "fetchUser pf Google accessToken = fetchUser_google pf accessToken"
| "fetchUser pf Discord accessToken = fetchUser_discord pf accessToken"

section \<open>The base provider (providers/base.js)\<close>

record config =
  cfg_clientId :: jsval
  cfg_clientSecret :: jsval
  cfg_redirectUri :: jsval
  cfg_scopes :: "string list option"

record oauth_provider =
  variant :: variant
  clientId :: jsval
  clientSecret :: jsval
  redirectUri :: jsval
  scopes :: "string list"

text \<open>
  The constructor. \<open>cfg_scopes\<close> is an array of strings or absent; an array is truthy
  also when it is empty, so \<^verbatim>\<open>config.scopes || this.defaultScopes\<close> keeps it.
\<close>

definition new_provider :: "variant \<Rightarrow> config \<Rightarrow> js_error + oauth_provider" where
  "new_provider v cfg =
     (if \<not> truthy (cfg_clientId cfg) then
        Inl (OAuthError (new_OAuthError (JStr ''clientId is required'')
               (Some (name v)) (JStr ''CONFIG_ERROR'')))
      else if \<not> truthy (cfg_clientSecret cfg) then
        Inl (OAuthError (new_OAuthError (JStr ''clientSecret is required'')
               (Some (name v)) (JStr ''CONFIG_ERROR'')))
      else if \<not> truthy (cfg_redirectUri cfg) then
        Inl (OAuthError (new_OAuthError (JStr ''redirectUri is required'')
               (Some (name v)) (JStr ''CONFIG_ERROR'')))
      else
        Inr \<lparr> variant = v,
              clientId = cfg_clientId cfg,
              clientSecret = cfg_clientSecret cfg,
              redirectUri = cfg_redirectUri cfg,
              scopes = (case cfg_scopes cfg of Some s \<Rightarrow> s | None \<Rightarrow> defaultScopes v) \<rparr>)"

text \<open>The options object of \<^verbatim>\<open>getRedirectUrl\<close> and \<^verbatim>\<open>handleCallback\<close>.\<close>

record options =
  opt_scopes :: "string list option"
  opt_state :: jsval

subsection \<open>getRedirectUrl\<close>

text \<open>None of the three variants overrides the hook.\<close>

definition addAuthParams :: "variant \<Rightarrow> search_params \<Rightarrow> options \<Rightarrow> search_params" where
  "addAuthParams v params opts = params"

text \<open>The search parameters of the URL, before they are serialized.\<close>

definition redirect_params :: "oauth_provider \<Rightarrow> options \<Rightarrow> search_params" where
  "redirect_params inst opts =
     (let scopes' = (case opt_scopes opts of Some s \<Rightarrow> s | None \<Rightarrow> scopes inst);
          params = [(''client_id'', js_String (clientId inst)),
                    (''redirect_uri'', js_String (redirectUri inst)),
                    (''response_type'', ''code''),
                    (''scope'', join '' '' scopes')];
          params' = (if truthy (opt_state opts)
                     then usp_set params ''state'' (js_String (opt_state opts))
                     else params)
      in addAuthParams (variant inst) params' opts)"

definition getRedirectUrl :: "oauth_provider \<Rightarrow> options \<Rightarrow> string" where
  "getRedirectUrl inst opts =
     authorizationUrl (variant inst) @ ''?'' @ usp_toString (redirect_params inst opts)"

subsection \<open>Extracting the callback parameters\<close>

text \<open>
  A request-like object: its \<open>query\<close> property, its \<open>nextUrl\<close> (given by the entries of
  \<open>nextUrl.searchParams\<close>), its \<open>url\<close> and its \<open>headers\<close>. Headers are absent, a
  \<^verbatim>\<open>Headers\<close> object with a \<^verbatim>\<open>get\<close> method, or a plain object.
\<close>

datatype headers_like =
    NoHeaders
  | HeadersObject "(string \<times> string) list"
  | PlainHeaders "(string \<times> jsval) list"

record request_like =
  rq_query :: jsval
  rq_nextUrl :: "search_params option"
  rq_url :: jsval
  rq_headers :: headers_like

record callback_params =
  p_code :: jsval
  p_state :: jsval
  p_error :: jsval
  p_errorDescription :: jsval

fun is_object :: "jsval \<Rightarrow> bool" where
  "is_object (JObj _) = True"
| "is_object (JArr _) = True"
| "is_object _ = False"

definition header_host :: "headers_like \<Rightarrow> jsval" where
  "header_host h =
     js_or (case h of
              NoHeaders \<Rightarrow> JUndefined
            | HeadersObject hs \<Rightarrow> usp_get hs ''host''
            | PlainHeaders hs \<Rightarrow> get (JObj hs) ''host'')
           (JStr ''localhost'')"

definition extractParams :: "platform \<Rightarrow> oauth_provider \<Rightarrow> request_like \<Rightarrow> js_error + callback_params" where
  "extractParams pf inst req =
     (if truthy (rq_query req) \<and> is_object (rq_query req) then
        Inr \<lparr> p_code = js_or (get (rq_query req) ''code'') JNull,
              p_state = js_or (get (rq_query req) ''state'') JNull,
              p_error = js_or (get (rq_query req) ''error'') JNull,
              p_errorDescription = js_or (get (rq_query req) ''error_description'') JNull \<rparr>
      else
        (case rq_nextUrl req of
           Some sp \<Rightarrow>
             Inr \<lparr> p_code = usp_get sp ''code'',
                   p_state = usp_get sp ''state'',
                   p_error = usp_get sp ''error'',
                   p_errorDescription = usp_get sp ''error_description'' \<rparr>
         | None \<Rightarrow>
             if truthy (rq_url req) then
               (case newURL pf (js_String (rq_url req))
                       (''http://'' @ js_String (header_host (rq_headers req))) of
                  None \<Rightarrow> Inl TypeError
                | Some sp \<Rightarrow>
                    Inr \<lparr> p_code = usp_get sp ''code'',
                          p_state = usp_get sp ''state'',
                          p_error = usp_get sp ''error'',
                          p_errorDescription = usp_get sp ''error_description'' \<rparr>)
             else
               Inl (OAuthError (new_OAuthError
                 (JStr (''Unable to extract query parameters from the request object. ''
                        @ ''Pass a standard Node.js/Web request, or an Express/Fastify/Next.js request.''))
                 (Some (name (variant inst))) (JStr ''INVALID_REQUEST'')))))"

subsection \<open>Token exchange\<close>

text \<open>The request of \<^verbatim>\<open>_exchangeCode\<close> to the token endpoint.\<close>

definition token_request :: "platform \<Rightarrow> oauth_provider \<Rightarrow> jsval \<Rightarrow> jsval io" where
  "token_request pf inst code' =
     (let body = [(''client_id'', js_String (clientId inst)),
                  (''client_secret'', js_String (clientSecret inst)),
                  (''code'', js_String code'),
                  (''redirect_uri'', js_String (redirectUri inst)),
                  (''grant_type'', ''authorization_code'')]
      in request pf (tokenUrl (variant inst))
           \<lparr> ro_method = Some ''POST'',
             ro_headers = [(''Content-Type'', ''application/x-www-form-urlencoded''),
                           (''Accept'', ''application/json'')],
             ro_body = Some (usp_toString body) \<rparr>)"

text \<open>\<^verbatim>\<open>_exchangeCode\<close>\<close>

definition exchangeCode :: "platform \<Rightarrow> oauth_provider \<Rightarrow> jsval \<Rightarrow> jsval io" where
  "exchangeCode pf inst code' =
     (case token_request pf inst code' of
           (t, Inl e) \<Rightarrow> (t, Inl e)
         | (t, Inr data) \<Rightarrow>
             if nullish data then (t, Inl TypeError)
             else if truthy (get data ''error'') then
               (t, Inl (OAuthError (new_OAuthError
                  (js_or (get data ''error_description'')
                     (JStr (''Token exchange failed: '' @ js_String (get data ''error''))))
                  (Some (name (variant inst))) (JStr ''TOKEN_ERROR''))))
             else if \<not> truthy (get data ''access_token'') then
               (t, Inl (OAuthError (new_OAuthError
                  (JStr ''No access token received from provider'')
                  (Some (name (variant inst))) (JStr ''TOKEN_ERROR''))))
             else (t, Inr data))"

subsection \<open>handleCallback\<close>

definition handleCallback :: "platform \<Rightarrow> oauth_provider \<Rightarrow> request_like \<Rightarrow> options \<Rightarrow> user io" where
  "handleCallback pf inst req opts =
     (case extractParams pf inst req of
        Inl e \<Rightarrow> ([], Inl e)
      | Inr params \<Rightarrow>
          if truthy (p_error params) then
            ([], Inl (OAuthError (new_OAuthError
               (js_or (p_errorDescription params)
                  (JStr (''Authorization denied: '' @ js_String (p_error params))))
               (Some (name (variant inst))) (p_error params))))
          else if \<not> truthy (p_code params) then
            ([], Inl (OAuthError (new_OAuthError
               (JStr ''No authorization code received in callback'')
               (Some (name (variant inst))) (JStr ''MISSING_CODE''))))
          else
            (case (if truthy (opt_state opts)
                   then validateState (opt_state opts) (p_state params)
                   else Inr ()) of
               Inl e \<Rightarrow> ([], Inl e)
             | Inr _ \<Rightarrow>
                 (case exchangeCode pf inst (p_code params) of
                    (t1, Inl e) \<Rightarrow> (t1, Inl e)
                  | (t1, Inr tokenData) \<Rightarrow>
                      (case fetchUser pf (variant inst) (get tokenData ''access_token'') of
                         (t2, Inl e) \<Rightarrow> (t1 @ t2, Inl e)
                       | (t2, Inr u) \<Rightarrow>
                           (t1 @ t2,
                            Inr (u\<lparr> u_accessToken := get tokenData ''access_token'' \<rparr>))))))"

section \<open>Notions used by the statements\<close>

text \<open>A result that is an \<^verbatim>\<open>OAuthError\<close> with the given code.\<close>

definition failed_with :: "js_error + 'a \<Rightarrow> string \<Rightarrow> bool" where
  "failed_with r c = (case r of Inl (OAuthError e) \<Rightarrow> code e = JStr c | _ \<Rightarrow> False)"

text \<open>An error as \<^verbatim>\<open>validateState\<close> raises it: no provider, one of its two codes.\<close>

definition is_state_error :: "js_error \<Rightarrow> bool" where
  "is_state_error e =
     (case e of
        OAuthError oe \<Rightarrow>
          provider oe = None \<and> (code oe = JStr ''STATE_MISSING'' \<or> code oe = JStr ''STATE_MISMATCH'')
      | _ \<Rightarrow> False)"

text \<open>The codes of the errors that the helpers shared by all providers raise.\<close>

definition helper_codes :: "jsval list" where
  "helper_codes = [JStr ''STATE_MISSING'', JStr ''STATE_MISMATCH'',
                   JStr ''HTTP_ERROR'', JStr ''NETWORK_ERROR'']"

text \<open>
  The attribution of an error of a provider instance: an \<^verbatim>\<open>OAuthError\<close> carries the name
  of the instance, or it carries no provider and one of the helpers' codes.
\<close>

definition classified :: "oauth_provider \<Rightarrow> js_error \<Rightarrow> bool" where
  "classified inst e =
     (case e of
        OAuthError oe \<Rightarrow>
          provider oe = Some (name (variant inst))
          \<or> (provider oe = None \<and> code oe \<in> set helper_codes)
      | _ \<Rightarrow> True)"

text \<open>
  The email selection as the specification words it: the entry marked both primary and
  verified, else any verified entry, else null.
\<close>

definition marked_primary_verified :: "jsval \<Rightarrow> bool" where
  "marked_primary_verified e = (truthy (get e ''primary'') \<and> truthy (get e ''verified''))"

definition marked_verified :: "jsval \<Rightarrow> bool" where
  "marked_verified e = truthy (get e ''verified'')"

definition preferred_email :: "jsval list \<Rightarrow> jsval" where
  "preferred_email es =
     (case List.find marked_primary_verified es of
        Some e \<Rightarrow> get e ''email''
      | None \<Rightarrow>
          (case List.find marked_verified es of
             Some e \<Rightarrow> get e ''email''
           | None \<Rightarrow> JNull))"

text \<open>An entry of the email list: an object that carries a non-empty email.\<close>

definition email_entry :: "jsval \<Rightarrow> bool" where
  "email_entry e = (\<not> nullish e \<and> truthy (get e ''email''))"


text \<open>The scope list \<^verbatim>\<open>getRedirectUrl\<close> is to use, in the words of the specification.\<close>

definition requested_scopes :: "variant \<Rightarrow> config \<Rightarrow> options \<Rightarrow> string list" where
  "requested_scopes v cfg opts =
     (case opt_scopes opts of
        Some s \<Rightarrow> s
      | None \<Rightarrow> (case cfg_scopes cfg of Some s \<Rightarrow> s | None \<Rightarrow> defaultScopes v))"


section \<open>Example inputs\<close>

text \<open>A network that answers by URL; an unknown host fails at the transport level.\<close>

definition serve :: "(string \<times> fetch_result) list \<Rightarrow> platform" where
  "serve routes =
     \<lparr> fetch = (\<lambda>c. case map_of routes (fc_url c) of
                       Some r \<Rightarrow> r
                     | None \<Rightarrow> FetchThrows ''getaddrinfo ENOTFOUND''),
       newURL = (\<lambda>u b. None) \<rparr>"

definition json_ok :: "jsval \<Rightarrow> fetch_result" where
  "json_ok v =
     FetchResponse \<lparr> ok = True, status = 200, content_type = Some ''application/json'',
                     body_json = Some v, body_form = [] \<rparr>"

definition json_status :: "nat \<Rightarrow> jsval \<Rightarrow> fetch_result" where
  "json_status n v =
     FetchResponse \<lparr> ok = False, status = n, content_type = Some ''application/json'',
                     body_json = Some v, body_form = [] \<rparr>"

definition example_config :: config where
  "example_config =
     \<lparr> cfg_clientId = JStr ''client-1'', cfg_clientSecret = JStr ''s3cret'',
       cfg_redirectUri = JStr ''http://localhost:3000/cb'', cfg_scopes = None \<rparr>"

definition example_provider :: "variant \<Rightarrow> oauth_provider" where
  "example_provider v =
     \<lparr> variant = v, clientId = JStr ''client-1'', clientSecret = JStr ''s3cret'',
       redirectUri = JStr ''http://localhost:3000/cb'', scopes = defaultScopes v \<rparr>"

text \<open>An Express-style request with the given query object.\<close>

definition query_request :: "(string \<times> jsval) list \<Rightarrow> request_like" where
  "query_request q =
     \<lparr> rq_query = JObj q, rq_nextUrl = None, rq_url = JUndefined, rq_headers = NoHeaders \<rparr>"

definition no_options :: options where
  "no_options = \<lparr> opt_scopes = None, opt_state = JUndefined \<rparr>"

definition with_state :: "jsval \<Rightarrow> options" where
  "with_state s = \<lparr> opt_scopes = None, opt_state = s \<rparr>"

section \<open>State validation\<close>

lemma fold_same:
  "length a = length b \<Longrightarrow>
   fold (\<lambda>(x, y) (same, n). (same \<and> x = y, Suc n)) (zip a b) (s, k) = (s \<and> a = b, k + length a)"
  by (induction a b arbitrary: s k rule: list_induct2) auto

lemma timingSafeEqual_steps_eq:
  "length a = length b \<Longrightarrow> timingSafeEqual_steps a b = Inr (a = b, length a)"
  by (simp add: timingSafeEqual_steps_def fold_same)

lemma validateState_steps_missing:
  "\<not> truthy a \<or> \<not> truthy b \<Longrightarrow>
   validateState_steps a b =
     (Inl (OAuthError (new_OAuthError
        (JStr (''State parameter missing '' @ em_dash @ '' potential CSRF attack''))
        None (JStr ''STATE_MISSING''))), 0)"
  by (auto simp: validateState_steps_def)

lemma validateState_steps_present:
  "truthy a \<Longrightarrow> truthy b \<Longrightarrow>
   validateState_steps a b =
     (if js_String a = js_String b then Inr ()
      else Inl (OAuthError (new_OAuthError
               (JStr (''State mismatch '' @ em_dash @ '' potential CSRF attack''))
               None (JStr ''STATE_MISMATCH''))),
      if length (js_String a) = length (js_String b) then length (js_String a) else 0)"
  by (auto simp: validateState_steps_def Let_def timingSafeEqual_steps_eq)

lemma validateState_missing:
  "\<not> truthy a \<or> \<not> truthy b \<Longrightarrow> failed_with (validateState a b) ''STATE_MISSING''"
  by (simp add: validateState_def validateState_steps_missing failed_with_def
                new_OAuthError_def js_or_def)

lemma validateState_present:
  "truthy a \<Longrightarrow> truthy b \<Longrightarrow>
   validateState a b =
     (if js_String a = js_String b then Inr ()
      else Inl (OAuthError (new_OAuthError
               (JStr (''State mismatch '' @ em_dash @ '' potential CSRF attack''))
               None (JStr ''STATE_MISMATCH''))))"
  by (simp add: validateState_def validateState_steps_present)

lemma validateState_error:
  assumes "validateState a b = Inl e"
  shows "is_state_error e"
proof (cases "truthy a \<and> truthy b")
  case True
  with assms show ?thesis
    by (auto simp: validateState_present is_state_error_def new_OAuthError_def js_or_def
             split: if_splits)
next
  case False
  with assms show ?thesis
    by (auto simp: validateState_def validateState_steps_missing is_state_error_def
                   new_OAuthError_def js_or_def)
qed

text \<open>
  Claim C3. \<^verbatim>\<open>validateState(expected, received)\<close> fails with \<open>STATE_MISSING\<close> when either
  argument is absent (undefined or null; the test is \<^verbatim>\<open>!x\<close>, so every falsy value counts,
  the empty string too). For a non-empty string \<open>x\<close>, \<^verbatim>\<open>validateState(x, x)\<close> returns
  without an error. For strings \<open>x \<noteq> y\<close>, of equal or of different length, it fails:
  with \<open>STATE_MISMATCH\<close> when both are non-empty (an empty one is a missing one). The
  comparison covers the full byte length: for non-empty strings of equal length, a call
  of \<^verbatim>\<open>validateState\<close> compares as many byte pairs as the strings are long, whether they
  are equal or differ, and wherever the first difference is; for strings of different
  length it fails on the lengths and compares no byte.
\<close>

theorem validateState_spec:
  "(\<not> truthy expected \<or> \<not> truthy received \<longrightarrow>
      failed_with (validateState expected received) ''STATE_MISSING'')
   \<and> (x \<noteq> [] \<longrightarrow> validateState (JStr x) (JStr x) = Inr ())
   \<and> (x \<noteq> y \<longrightarrow> isl (validateState (JStr x) (JStr y)))
   \<and> (x \<noteq> [] \<and> y \<noteq> [] \<and> x \<noteq> y \<longrightarrow>
        failed_with (validateState (JStr x) (JStr y)) ''STATE_MISMATCH'')
   \<and> (x \<noteq> [] \<and> y \<noteq> [] \<and> length x = length y \<longrightarrow>
        snd (validateState_steps (JStr x) (JStr y)) = length x)
   \<and> (x \<noteq> [] \<and> y \<noteq> [] \<and> length x \<noteq> length y \<longrightarrow>
        snd (validateState_steps (JStr x) (JStr y)) = 0)"
proof -
  have "isl (validateState (JStr x) (JStr y))" if "x \<noteq> y"
  proof (cases "x \<noteq> [] \<and> y \<noteq> []")
    case True
    with that show ?thesis
      by (simp add: validateState_present)
  next
    case False
    then show ?thesis
      by (auto simp: validateState_def validateState_steps_missing)
  qed
  then show ?thesis
    using validateState_missing[of expected received]
    by (auto simp: validateState_present validateState_steps_present failed_with_def
                   new_OAuthError_def js_or_def)
qed

theorem validateState_spec_witness:
  "failed_with (validateState JUndefined (JStr ''abc'')) ''STATE_MISSING''
   \<and> failed_with (validateState (JStr ''abc'') JNull) ''STATE_MISSING''
   \<and> validateState (JStr ''abc'') (JStr ''abc'') = Inr ()
   \<and> failed_with (validateState (JStr ''abc'') (JStr ''xbc'')) ''STATE_MISMATCH''
   \<and> failed_with (validateState (JStr ''abc'') (JStr ''abcd'')) ''STATE_MISMATCH''
   \<and> snd (validateState_steps (JStr ''abc'') (JStr ''xbc'')) = 3
   \<and> snd (validateState_steps (JStr ''abc'') (JStr ''abx'')) = 3
   \<and> snd (validateState_steps (JStr ''abc'') (JStr ''abc'')) = 3
   \<and> snd (validateState_steps (JStr ''abc'') (JStr ''abcd'')) = 0"
  using validateState_spec[of JUndefined "JStr ''abc''" "''abc''" "''xbc''"]
        validateState_spec[of "JStr ''abc''" JNull "''abc''" "''abcd''"]
        validateState_spec[of JNull JNull "''abc''" "''abx''"]
        validateState_spec[of JNull JNull "''abc''" "''abc''"]
  by simp

section \<open>The callback flow\<close>


lemma name_nonempty: "name v \<noteq> []"
  by (cases v) auto

lemma request_error:
  "request pf url ro = (t, Inl e) \<Longrightarrow>
     e = TypeError \<or> e = SyntaxError \<or>
     (\<exists>oe. e = OAuthError oe \<and> provider oe = None
           \<and> (code oe = JStr ''HTTP_ERROR'' \<or> code oe = JStr ''NETWORK_ERROR''))"
  by (auto simp: request_def Let_def parse_body_def new_OAuthError_def js_or_def
           split: fetch_result.splits sum.splits if_splits option.splits)

lemma request_trace: "fst (request pf url ro) \<noteq> []"
  by (simp add: request_def Let_def)

lemma handleCallback_denied:
  "extractParams pf inst req = Inr params \<Longrightarrow> truthy (p_error params) \<Longrightarrow>
   handleCallback pf inst req opts =
     ([], Inl (OAuthError (new_OAuthError
               (js_or (p_errorDescription params)
                  (JStr (''Authorization denied: '' @ js_String (p_error params))))
               (Some (name (variant inst))) (p_error params))))"
  by (simp add: handleCallback_def)

lemma handleCallback_missing_code:
  "extractParams pf inst req = Inr params \<Longrightarrow> \<not> truthy (p_error params) \<Longrightarrow>
   \<not> truthy (p_code params) \<Longrightarrow>
   handleCallback pf inst req opts =
     ([], Inl (OAuthError (new_OAuthError
               (JStr ''No authorization code received in callback'')
               (Some (name (variant inst))) (JStr ''MISSING_CODE''))))"
  by (simp add: handleCallback_def)

lemma handleCallback_state_failure:
  "extractParams pf inst req = Inr params \<Longrightarrow> \<not> truthy (p_error params) \<Longrightarrow>
   truthy (p_code params) \<Longrightarrow> truthy (opt_state opts) \<Longrightarrow>
   validateState (opt_state opts) (p_state params) = Inl e \<Longrightarrow>
   handleCallback pf inst req opts = ([], Inl e)"
  by (simp add: handleCallback_def)

text \<open>The part of \<^verbatim>\<open>handleCallback\<close> after the checks.\<close>

lemma handleCallback_exchange:
  "extractParams pf inst req = Inr params \<Longrightarrow> \<not> truthy (p_error params) \<Longrightarrow>
   truthy (p_code params) \<Longrightarrow>
   (truthy (opt_state opts) \<longrightarrow> validateState (opt_state opts) (p_state params) = Inr ()) \<Longrightarrow>
   handleCallback pf inst req opts =
     (case exchangeCode pf inst (p_code params) of
        (t1, Inl e) \<Rightarrow> (t1, Inl e)
      | (t1, Inr tokenData) \<Rightarrow>
          (case fetchUser pf (variant inst) (get tokenData ''access_token'') of
             (t2, Inl e) \<Rightarrow> (t1 @ t2, Inl e)
           | (t2, Inr u) \<Rightarrow>
               (t1 @ t2, Inr (u\<lparr> u_accessToken := get tokenData ''access_token'' \<rparr>))))"
  by (auto simp: handleCallback_def)

text \<open>
  Claim C1. Let the caller pass a truthy \<open>options.state\<close> and let the validation of it
  against the state of the callback request fail. Then \<^verbatim>\<open>handleCallback\<close> throws
  without having made any network call: neither the token exchange nor the profile
  request occurs. The error of the validation is one of the two of the StateValidator,
  and it is the error thrown whenever the validation is reached, that is, when the
  request carries no error and carries a code (the checks for a provider error and for
  a missing code come first and throw their own error, also before any network call).
\<close>

theorem handleCallback_state_failure_no_network:
  assumes "extractParams pf inst req = Inr params"
    and "truthy (opt_state opts)"
    and "validateState (opt_state opts) (p_state params) = Inl e"
  shows "fst (handleCallback pf inst req opts) = []
         \<and> isl (snd (handleCallback pf inst req opts))
         \<and> is_state_error e
         \<and> (\<not> truthy (p_error params) \<and> truthy (p_code params) \<longrightarrow>
              handleCallback pf inst req opts = ([], Inl e))"
proof -
  consider (denied) "truthy (p_error params)"
    | (nocode) "\<not> truthy (p_error params)" "\<not> truthy (p_code params)"
    | (checked) "\<not> truthy (p_error params)" "truthy (p_code params)"
    by blast
  then show ?thesis
  proof cases
    case denied
    with assms show ?thesis
      by (simp add: handleCallback_denied validateState_error)
  next
    case nocode
    with assms show ?thesis
      by (simp add: handleCallback_missing_code validateState_error)
  next
    case checked
    with assms show ?thesis
      by (simp add: handleCallback_state_failure validateState_error)
  qed
qed

theorem handleCallback_state_failure_no_network_witness:
  "fst (handleCallback (serve []) (example_provider GitHub)
          (query_request [(''code'', JStr ''abc''), (''state'', JStr ''evil'')])
          (with_state (JStr ''good''))) = []
   \<and> failed_with (snd (handleCallback (serve []) (example_provider GitHub)
          (query_request [(''code'', JStr ''abc''), (''state'', JStr ''evil'')])
          (with_state (JStr ''good'')))) ''STATE_MISMATCH''"
proof -
  let ?pf = "serve []" and ?inst = "example_provider GitHub"
    and ?req = "query_request [(''code'', JStr ''abc''), (''state'', JStr ''evil'')]"
    and ?opts = "with_state (JStr ''good'')"
  let ?params = "\<lparr> p_code = JStr ''abc'', p_state = JStr ''evil'', p_error = JNull,
                    p_errorDescription = JNull \<rparr>"
  let ?e = "OAuthError (new_OAuthError
               (JStr (''State mismatch '' @ em_dash @ '' potential CSRF attack''))
               None (JStr ''STATE_MISMATCH''))"
  have h1: "extractParams ?pf ?inst ?req = Inr ?params"
    by (simp add: extractParams_def query_request_def js_or_def)
  have h2: "truthy (opt_state ?opts)"
    by (simp add: with_state_def)
  have h3: "validateState (opt_state ?opts) (p_state ?params) = Inl ?e"
    by (simp add: with_state_def validateState_present)
  from handleCallback_state_failure_no_network[OF h1 h2 h3]
  show ?thesis
    by (simp add: failed_with_def new_OAuthError_def js_or_def)
qed

text \<open>
  Claim C2. When the extracted parameters carry an error value (a truthy one: an empty
  string counts as none), \<^verbatim>\<open>handleCallback\<close> fails, before any network call, with an
  error whose code is that value, whether or not a code is present as well. When neither
  an error nor a code is present, it fails with \<open>MISSING_CODE\<close>.
\<close>

theorem handleCallback_error_precedence:
  assumes "extractParams pf inst req = Inr params"
  shows "(truthy (p_error params) \<longrightarrow>
            (\<exists>e. handleCallback pf inst req opts = ([], Inl (OAuthError e))
                  \<and> code e = p_error params))
         \<and> (\<not> truthy (p_error params) \<and> \<not> truthy (p_code params) \<longrightarrow>
              fst (handleCallback pf inst req opts) = []
              \<and> failed_with (snd (handleCallback pf inst req opts)) ''MISSING_CODE'')"
  using assms
  by (auto simp: handleCallback_denied handleCallback_missing_code failed_with_def
                 new_OAuthError_def js_or_def)

theorem handleCallback_error_precedence_witness:
  "failed_with (snd (handleCallback (serve []) (example_provider Google)
          (query_request [(''error'', JStr ''access_denied''), (''code'', JStr ''abc'')])
          no_options)) ''access_denied''
   \<and> failed_with (snd (handleCallback (serve []) (example_provider Google)
          (query_request []) no_options)) ''MISSING_CODE''"
proof -
  let ?pf = "serve []" and ?inst = "example_provider Google"
  let ?req1 = "query_request [(''error'', JStr ''access_denied''), (''code'', JStr ''abc'')]"
  let ?p1 = "\<lparr> p_code = JStr ''abc'', p_state = JNull, p_error = JStr ''access_denied'',
                p_errorDescription = JNull \<rparr>"
  let ?req2 = "query_request []"
  let ?p2 = "\<lparr> p_code = JNull, p_state = JNull, p_error = JNull, p_errorDescription = JNull \<rparr>"
  have h1: "extractParams ?pf ?inst ?req1 = Inr ?p1"
    by (simp add: extractParams_def query_request_def js_or_def)
  have h2: "extractParams ?pf ?inst ?req2 = Inr ?p2"
    by (simp add: extractParams_def query_request_def js_or_def)
  from handleCallback_error_precedence[OF h1, of no_options]
       handleCallback_error_precedence[OF h2, of no_options]
  show ?thesis
    by (auto simp: failed_with_def)
qed

section \<open>The errors of a provider instance\<close>

lemma exchangeCode_error:
  assumes "exchangeCode pf inst c = (t, Inl e)"
  shows "e = TypeError \<or> e = SyntaxError \<or>
     (\<exists>oe. e = OAuthError oe \<and>
        ((provider oe = None \<and> (code oe = JStr ''HTTP_ERROR'' \<or> code oe = JStr ''NETWORK_ERROR''))
         \<or> (provider oe = Some (name (variant inst)) \<and> code oe = JStr ''TOKEN_ERROR'')))"
proof (cases "token_request pf inst c")
  case (Pair t' r)
  show ?thesis
  proof (cases r)
    case (Inl e')
    with Pair assms have "request pf (tokenUrl (variant inst))
           \<lparr> ro_method = Some ''POST'',
             ro_headers = [(''Content-Type'', ''application/x-www-form-urlencoded''),
                           (''Accept'', ''application/json'')],
             ro_body = Some (usp_toString [(''client_id'', js_String (clientId inst)),
                  (''client_secret'', js_String (clientSecret inst)),
                  (''code'', js_String c),
                  (''redirect_uri'', js_String (redirectUri inst)),
                  (''grant_type'', ''authorization_code'')]) \<rparr> = (t, Inl e)"
      by (simp add: exchangeCode_def token_request_def)
    from request_error[OF this] show ?thesis by blast
  next
    case (Inr data)
    with Pair assms show ?thesis
      by (auto simp: exchangeCode_def new_OAuthError_def js_or_def name_nonempty
               split: if_splits)
  qed
qed

lemma exchangeCode_trace: "fst (exchangeCode pf inst c) \<noteq> []"
proof -
  have "fst (token_request pf inst c) \<noteq> []"
    by (simp add: token_request_def request_trace)
  then show ?thesis
    by (auto simp: exchangeCode_def split: prod.splits sum.splits)
qed

lemma fetchUser_google_error:
  "fetchUser_google pf tok = (t, Inl e) \<Longrightarrow>
     e = TypeError \<or> e = SyntaxError \<or>
     (\<exists>oe. e = OAuthError oe \<and> provider oe = None
           \<and> (code oe = JStr ''HTTP_ERROR'' \<or> code oe = JStr ''NETWORK_ERROR''))"
  unfolding fetchUser_google_def google_profile_request_def
  by (auto split: prod.splits sum.splits if_splits dest: request_error)

lemma fetchUser_discord_error:
  "fetchUser_discord pf tok = (t, Inl e) \<Longrightarrow>
     e = TypeError \<or> e = SyntaxError \<or>
     (\<exists>oe. e = OAuthError oe \<and> provider oe = None
           \<and> (code oe = JStr ''HTTP_ERROR'' \<or> code oe = JStr ''NETWORK_ERROR''))"
  unfolding fetchUser_discord_def discord_profile_request_def discord_avatar_def
  by (auto simp: Let_def split: prod.splits sum.splits if_splits jsval.splits dest: request_error)

lemma fetchUser_github_error:
  "fetchUser_github pf tok = (t, Inl e) \<Longrightarrow>
     e = TypeError \<or> e = SyntaxError \<or>
     (\<exists>oe. e = OAuthError oe \<and> provider oe = None
           \<and> (code oe = JStr ''HTTP_ERROR'' \<or> code oe = JStr ''NETWORK_ERROR''))"
  unfolding fetchUser_github_def github_profile_request_def
  by (auto simp: Let_def split: prod.splits sum.splits if_splits dest: request_error)

lemma fetchUser_error:
  "fetchUser pf v tok = (t, Inl e) \<Longrightarrow>
     e = TypeError \<or> e = SyntaxError \<or>
     (\<exists>oe. e = OAuthError oe \<and> provider oe = None
           \<and> (code oe = JStr ''HTTP_ERROR'' \<or> code oe = JStr ''NETWORK_ERROR''))"
  by (cases v) (simp_all add: fetchUser_github_error fetchUser_google_error fetchUser_discord_error)

lemma extractParams_error:
  "extractParams pf inst req = Inl e \<Longrightarrow>
     e = TypeError \<or>
     (\<exists>oe. e = OAuthError oe \<and> provider oe = Some (name (variant inst))
           \<and> code oe = JStr ''INVALID_REQUEST'')"
  by (auto simp: extractParams_def new_OAuthError_def js_or_def name_nonempty
           split: if_splits option.splits)

text \<open>
  Every error of \<^verbatim>\<open>handleCallback\<close> is classified, and an error of the StateValidator
  needs a truthy \<open>options.state\<close>.
\<close>

lemma handleCallback_error_cases:
  assumes "handleCallback pf inst req opts = (t, Inl e)"
  shows "classified inst e \<and> (is_state_error e \<longrightarrow> truthy (opt_state opts))"
proof (cases "extractParams pf inst req")
  case (Inl e')
  with assms have "e = e'" by (simp add: handleCallback_def)
  with extractParams_error[OF Inl] show ?thesis
    by (auto simp: classified_def is_state_error_def)
next
  case (Inr params)
  consider (denied) "truthy (p_error params)"
    | (nocode) "\<not> truthy (p_error params)" "\<not> truthy (p_code params)"
    | (invalid) e' where "\<not> truthy (p_error params)" "truthy (p_code params)"
        "truthy (opt_state opts)" "validateState (opt_state opts) (p_state params) = Inl e'"
    | (exchange) "\<not> truthy (p_error params)" "truthy (p_code params)"
        "truthy (opt_state opts) \<longrightarrow> validateState (opt_state opts) (p_state params) = Inr ()"
    by (cases "validateState (opt_state opts) (p_state params)") auto
  then show ?thesis
  proof cases
    case denied
    with assms Inr show ?thesis
      by (auto simp: handleCallback_denied classified_def is_state_error_def new_OAuthError_def
                     name_nonempty)
  next
    case nocode
    with assms Inr show ?thesis
      by (auto simp: handleCallback_missing_code classified_def is_state_error_def
                     new_OAuthError_def name_nonempty)
  next
    case invalid
    with assms Inr have "e = e'"
      by (simp add: handleCallback_state_failure)
    with validateState_error[OF invalid(4)] invalid(3) show ?thesis
      by (auto simp: classified_def is_state_error_def helper_codes_def split: js_error.splits)
  next
    case exchange
    note eq = handleCallback_exchange[OF Inr exchange]
    show ?thesis
    proof (cases "exchangeCode pf inst (p_code params)")
      case (Pair t1 r1)
      show ?thesis
      proof (cases r1)
        case (Inl e1)
        with Pair eq assms have "exchangeCode pf inst (p_code params) = (t, Inl e)"
          by simp
        from exchangeCode_error[OF this] show ?thesis
          by (auto simp: classified_def is_state_error_def helper_codes_def name_nonempty)
      next
        case tok: (Inr tokenData)
        show ?thesis
        proof (cases "fetchUser pf (variant inst) (get tokenData ''access_token'')")
          case (Pair t2 r2)
          with tok \<open>exchangeCode pf inst (p_code params) = (t1, r1)\<close> eq assms
          have "r2 = Inl e"
            by (cases r2) auto
          with Pair have "fetchUser pf (variant inst) (get tokenData ''access_token'') = (t2, Inl e)"
            by simp
          from fetchUser_error[OF this] show ?thesis
            by (auto simp: classified_def is_state_error_def helper_codes_def)
        qed
      qed
    qed
  qed
qed




text \<open>
  Claim C10. \<^verbatim>\<open>handleCallback\<close> validates the state only when \<open>options.state\<close> is truthy.
  When it is absent, undefined or the empty string, no error of the StateValidator (an
  error without provider, with code \<open>STATE_MISSING\<close> or \<open>STATE_MISMATCH\<close>) is thrown,
  whatever state the callback request carries, and a request that passes the checks for a
  provider error and for a missing code goes on to the token exchange.
\<close>

theorem handleCallback_skips_validation:
  assumes "\<not> truthy (opt_state opts)"
  shows "(\<forall>t e. handleCallback pf inst req opts = (t, Inl e) \<longrightarrow> \<not> is_state_error e)
         \<and> (\<forall>params. extractParams pf inst req = Inr params \<and> \<not> truthy (p_error params)
                \<and> truthy (p_code params) \<longrightarrow> fst (handleCallback pf inst req opts) \<noteq> [])"
proof -
  have "\<not> is_state_error e" if "handleCallback pf inst req opts = (t, Inl e)" for t e
    using handleCallback_error_cases[OF that] assms by blast
  moreover have "fst (handleCallback pf inst req opts) \<noteq> []"
    if "extractParams pf inst req = Inr params" "\<not> truthy (p_error params)"
       "truthy (p_code params)" for params
  proof -
    from assms have "truthy (opt_state opts) \<longrightarrow>
        validateState (opt_state opts) (p_state params) = Inr ()" by simp
    from handleCallback_exchange[OF that this] exchangeCode_trace[of pf inst "p_code params"]
    show ?thesis
      by (auto split: prod.splits sum.splits)
  qed
  ultimately show ?thesis by blast
qed

theorem handleCallback_skips_validation_witness:
  "snd (handleCallback (serve []) (example_provider Discord)
          (query_request [(''code'', JStr ''abc''), (''state'', JStr ''forged'')])
          (with_state (JStr []))) =
     Inl (OAuthError \<lparr> message = ''Network request to https://discord.com/api/oauth2/token failed: getaddrinfo ENOTFOUND'',
                        provider = None, code = JStr ''NETWORK_ERROR'' \<rparr>)
   \<and> fst (handleCallback (serve []) (example_provider Discord)
          (query_request [(''code'', JStr ''abc''), (''state'', JStr ''forged'')])
          (with_state (JStr []))) \<noteq> []"
proof -
  let ?pf = "serve []" and ?inst = "example_provider Discord"
    and ?req = "query_request [(''code'', JStr ''abc''), (''state'', JStr ''forged'')]"
    and ?opts = "with_state (JStr [])"
  let ?params = "\<lparr> p_code = JStr ''abc'', p_state = JStr ''forged'', p_error = JNull,
                    p_errorDescription = JNull \<rparr>"
  have h: "\<not> truthy (opt_state ?opts)"
    by (simp add: with_state_def)
  have p: "extractParams ?pf ?inst ?req = Inr ?params"
    by (simp add: extractParams_def query_request_def js_or_def)
  have r: "snd (handleCallback ?pf ?inst ?req ?opts) =
     Inl (OAuthError \<lparr> message = ''Network request to https://discord.com/api/oauth2/token failed: getaddrinfo ENOTFOUND'',
                        provider = None, code = JStr ''NETWORK_ERROR'' \<rparr>)"
    unfolding handleCallback_def p
    by (simp add: with_state_def exchangeCode_def example_provider_def
                  token_request_def request_def serve_def new_OAuthError_def Let_def js_or_def)
  from handleCallback_skips_validation[OF h, of ?pf ?inst ?req] p r show ?thesis
    by simp
qed

section \<open>Token exchange\<close>








section \<open>Profile normalization\<close>

lemma fetchUser_discord_result:
  assumes "snd (discord_profile_request pf tok) = Inr profile" and "\<not> nullish profile"
  shows "fetchUser_discord pf tok =
     (fst (discord_profile_request pf tok),
      case discord_avatar profile of
        Inl e \<Rightarrow> Inl e
      | Inr avatar \<Rightarrow>
          Inr \<lparr> u_provider = ''discord'',
                u_id = JStr (js_String (get profile ''id'')),
                u_email = js_or (get profile ''email'') JNull,
                u_name = js_or (get profile ''global_name'') (get profile ''username''),
                u_avatar = avatar,
                u_raw = profile,
                u_accessToken = JUndefined \<rparr>)"
proof (cases "discord_profile_request pf tok")
  case (Pair t r)
  with assms show ?thesis
    by (simp add: fetchUser_discord_def split: sum.splits)
qed

text \<open>
  Claim C8. Discord's \<^verbatim>\<open>fetchUser\<close> builds the avatar from the CDN template, the user id
  and the avatar hash of the profile: a hash that begins with \<open>a_\<close> gives a URL ending in
  \<open>.gif\<close>, any other hash (a non-empty string) a URL ending in \<open>.png\<close>, and a null hash
  gives the avatar null (the test is \<^verbatim>\<open>if (profile.avatar)\<close>: so does every falsy value,
  an absent field or an empty string).
\<close>

theorem discord_avatar_url:
  assumes "snd (discord_profile_request pf tok) = Inr profile" and "\<not> nullish profile"
  shows "(\<forall>h. get profile ''avatar'' = JStr h \<and> h \<noteq> [] \<and> startsWith h ''a_'' \<longrightarrow>
            map_sum id u_avatar (snd (fetchUser pf Discord tok)) =
              Inr (JStr (''https://cdn.discordapp.com/avatars/'' @ js_String (get profile ''id'')
                         @ ''/'' @ h @ ''.gif'')))
         \<and> (\<forall>h. get profile ''avatar'' = JStr h \<and> h \<noteq> [] \<and> \<not> startsWith h ''a_'' \<longrightarrow>
            map_sum id u_avatar (snd (fetchUser pf Discord tok)) =
              Inr (JStr (''https://cdn.discordapp.com/avatars/'' @ js_String (get profile ''id'')
                         @ ''/'' @ h @ ''.png'')))
         \<and> (\<not> truthy (get profile ''avatar'') \<longrightarrow>
            map_sum id u_avatar (snd (fetchUser pf Discord tok)) = Inr JNull)"
  by (cases "get profile ''avatar''")
     (simp_all add: fetchUser_discord_result[OF assms] discord_avatar_def)

theorem discord_avatar_url_witness:
  "map_sum id u_avatar (snd (fetchUser
       (serve [(''https://discord.com/api/v10/users/@me'',
                json_ok (JObj [(''id'', JStr ''80351110224678912''), (''username'', JStr ''nelly''),
                               (''avatar'', JStr ''a_abc123'')]))])
       Discord (JStr ''tok''))) =
     Inr (JStr ''https://cdn.discordapp.com/avatars/80351110224678912/a_abc123.gif'')
   \<and> map_sum id u_avatar (snd (fetchUser
       (serve [(''https://discord.com/api/v10/users/@me'',
                json_ok (JObj [(''id'', JStr ''80351110224678912''), (''username'', JStr ''nelly''),
                               (''avatar'', JStr ''abc123'')]))])
       Discord (JStr ''tok''))) =
     Inr (JStr ''https://cdn.discordapp.com/avatars/80351110224678912/abc123.png'')
   \<and> map_sum id u_avatar (snd (fetchUser
       (serve [(''https://discord.com/api/v10/users/@me'',
                json_ok (JObj [(''id'', JStr ''80351110224678912''), (''username'', JStr ''nelly''),
                               (''avatar'', JNull)]))])
       Discord (JStr ''tok''))) = Inr JNull"
proof -
  let ?p1 = "JObj [(''id'', JStr ''80351110224678912''), (''username'', JStr ''nelly''),
                   (''avatar'', JStr ''a_abc123'')]"
  let ?p2 = "JObj [(''id'', JStr ''80351110224678912''), (''username'', JStr ''nelly''),
                   (''avatar'', JStr ''abc123'')]"
  let ?p3 = "JObj [(''id'', JStr ''80351110224678912''), (''username'', JStr ''nelly''),
                   (''avatar'', JNull)]"
  have r: "snd (discord_profile_request
                 (serve [(''https://discord.com/api/v10/users/@me'', json_ok p)]) (JStr ''tok''))
           = Inr p" for p
    by (simp add: discord_profile_request_def request_def serve_def json_ok_def parse_body_def
                  Let_def)
  have n: "\<not> nullish ?p1" "\<not> nullish ?p2" "\<not> nullish ?p3"
    by simp_all
  from discord_avatar_url[OF r n(1)] discord_avatar_url[OF r n(2)] discord_avatar_url[OF r n(3)]
  show ?thesis
    by simp
qed












section \<open>GitHub's email resolution\<close>

lemma js_find_primary_verified:
  "\<forall>e \<in> set es. \<not> nullish e \<Longrightarrow>
   js_find primary_verified es =
     Inr (case List.find marked_primary_verified es of Some e \<Rightarrow> e | None \<Rightarrow> JUndefined)"
  by (induction es) (auto simp: primary_verified_def marked_primary_verified_def)

lemma js_find_verified:
  "\<forall>e \<in> set es. \<not> nullish e \<Longrightarrow>
   js_find verified es =
     Inr (case List.find marked_verified es of Some e \<Rightarrow> e | None \<Rightarrow> JUndefined)"
  by (induction es) (auto simp: verified_def marked_verified_def)

lemma find_in_set: "List.find p es = Some e \<Longrightarrow> e \<in> set es"
  by (induction es) (auto split: if_splits)

lemma select_email_preferred:
  assumes "\<forall>e \<in> set es. email_entry e"
  shows "select_email (JArr es) = Inr (preferred_email es)"
proof -
  from assms have nn: "\<forall>e \<in> set es. \<not> nullish e"
    by (simp add: email_entry_def)
  show ?thesis
  proof (cases "List.find marked_primary_verified es")
    case (Some p)
    with find_in_set[OF Some] assms have "\<not> nullish p" "truthy (get p ''email'')"
      by (simp_all add: email_entry_def)
    with Some show ?thesis
      by (simp add: select_email_def js_find_primary_verified[OF nn] preferred_email_def
                    opt_email_def)
  next
    case None
    show ?thesis
    proof (cases "List.find marked_verified es")
      case (Some v)
      with find_in_set[OF Some] assms have "\<not> nullish v" "truthy (get v ''email'')"
        by (simp_all add: email_entry_def)
      with None Some show ?thesis
        by (simp add: select_email_def js_find_primary_verified[OF nn] js_find_verified[OF nn]
                      preferred_email_def opt_email_def js_or_def)
    next
      case inner: None
      with None show ?thesis
        by (simp add: select_email_def js_find_primary_verified[OF nn] js_find_verified[OF nn]
                      preferred_email_def opt_email_def js_or_def)
    qed
  qed
qed

lemma fetchUser_github_fallback:
  assumes "snd (github_profile_request pf tok) = Inr profile"
    and "\<not> nullish profile"
    and "\<not> truthy (get profile ''email'')"
  shows "fetchUser_github pf tok =
     (fst (github_profile_request pf tok) @ fst (github_emails_request pf tok),
      Inr \<lparr> u_provider = ''github'',
            u_id = JStr (js_String (get profile ''id'')),
            u_email = (case snd (github_emails_request pf tok) of
                         Inl e \<Rightarrow> JNull
                       | Inr emails \<Rightarrow>
                           (case select_email emails of Inl e \<Rightarrow> JNull | Inr a \<Rightarrow> a)),
            u_name = js_or (get profile ''name'') (get profile ''login''),
            u_avatar = js_or (get profile ''avatar_url'') JNull,
            u_raw = profile,
            u_accessToken = JUndefined \<rparr>)"
proof (cases "github_profile_request pf tok")
  case p: (Pair t1 r1)
  show ?thesis
  proof (cases "github_emails_request pf tok")
    case (Pair t2 r2)
    with p assms show ?thesis
      by (simp add: fetchUser_github_def split: sum.splits)
  qed
qed

text \<open>
  Claim C7. Let GitHub's profile request succeed with a profile whose email is empty.
  Then \<^verbatim>\<open>fetchUser\<close> makes the secondary request for the email list, after the profile
  request, and returns a user in every case. When the list arrives and its entries
  carry an email, the user's email is the preferred one: that of the entry marked both
  primary and verified, else that of a verified entry, else null. When the secondary
  request fails, the email is null and the fetch does not fail.
\<close>

theorem github_email_resolution:
  assumes "snd (github_profile_request pf tok) = Inr profile"
    and "\<not> nullish profile"
    and "\<not> truthy (get profile ''email'')"
  shows "\<not> isl (snd (fetchUser pf GitHub tok))
         \<and> map fc_url (fst (fetchUser pf GitHub tok)) =
             [''https://api.github.com/user'', ''https://api.github.com/user/emails'']
         \<and> (\<forall>es. snd (github_emails_request pf tok) = Inr (JArr es)
                \<and> (\<forall>e \<in> set es. email_entry e) \<longrightarrow>
                map_sum id u_email (snd (fetchUser pf GitHub tok)) = Inr (preferred_email es))
         \<and> (\<forall>e. snd (github_emails_request pf tok) = Inl e \<longrightarrow>
                map_sum id u_email (snd (fetchUser pf GitHub tok)) = Inr JNull)"
proof -
  note eq = fetchUser_github_fallback[OF assms]
  have "map fc_url (fst (fetchUser pf GitHub tok)) =
          [''https://api.github.com/user'', ''https://api.github.com/user/emails'']"
    by (simp add: eq) (simp add: github_profile_request_def github_emails_request_def
                                 request_def Let_def)
  then show ?thesis
    by (simp add: eq select_email_preferred)
qed

theorem github_email_resolution_witness:
  "map_sum id u_email (snd (fetchUser
      (serve [(''https://api.github.com/user'',
               json_ok (JObj [(''id'', JNum 1), (''login'', JStr ''octocat''), (''email'', JNull)])),
              (''https://api.github.com/user/emails'',
               json_ok (JArr [JObj [(''email'', JStr ''old@example.com''), (''primary'', JBool False),
                                    (''verified'', JBool True)],
                              JObj [(''email'', JStr ''me@example.com''), (''primary'', JBool True),
                                    (''verified'', JBool True)]]))])
      GitHub (JStr ''tok''))) = Inr (JStr ''me@example.com'')
   \<and> map_sum id u_email (snd (fetchUser
      (serve [(''https://api.github.com/user'',
               json_ok (JObj [(''id'', JNum 1), (''login'', JStr ''octocat''), (''email'', JNull)])),
              (''https://api.github.com/user/emails'',
               json_ok (JArr [JObj [(''email'', JStr ''me@example.com''), (''primary'', JBool True),
                                    (''verified'', JBool False)],
                              JObj [(''email'', JStr ''old@example.com''), (''primary'', JBool False),
                                    (''verified'', JBool True)]]))])
      GitHub (JStr ''tok''))) = Inr (JStr ''old@example.com'')
   \<and> map_sum id u_email (snd (fetchUser
      (serve [(''https://api.github.com/user'',
               json_ok (JObj [(''id'', JNum 1), (''login'', JStr ''octocat''), (''email'', JNull)])),
              (''https://api.github.com/user/emails'',
               json_ok (JArr [JObj [(''email'', JStr ''me@example.com''), (''primary'', JBool True),
                                    (''verified'', JBool False)]]))])
      GitHub (JStr ''tok''))) = Inr JNull
   \<and> map_sum id u_email (snd (fetchUser
      (serve [(''https://api.github.com/user'',
               json_ok (JObj [(''id'', JNum 1), (''login'', JStr ''octocat''), (''email'', JNull)])),
              (''https://api.github.com/user/emails'',
               json_status 403 (JObj [(''message'', JStr ''Forbidden'')]))])
      GitHub (JStr ''tok''))) = Inr JNull"
proof -
  let ?profile = "JObj [(''id'', JNum 1), (''login'', JStr ''octocat''), (''email'', JNull)]"
  let ?es1 = "[JObj [(''email'', JStr ''old@example.com''), (''primary'', JBool False),
                     (''verified'', JBool True)],
               JObj [(''email'', JStr ''me@example.com''), (''primary'', JBool True),
                     (''verified'', JBool True)]]"
  let ?es2 = "[JObj [(''email'', JStr ''me@example.com''), (''primary'', JBool True),
                     (''verified'', JBool False)],
               JObj [(''email'', JStr ''old@example.com''), (''primary'', JBool False),
                     (''verified'', JBool True)]]"
  let ?es3 = "[JObj [(''email'', JStr ''me@example.com''), (''primary'', JBool True),
                     (''verified'', JBool False)]]"
  let ?err = "OAuthError \<lparr> message = ''Forbidden'', provider = None, code = JStr ''HTTP_ERROR'' \<rparr>"
  have p: "snd (github_profile_request
                  (serve [(''https://api.github.com/user'', json_ok ?profile),
                          (''https://api.github.com/user/emails'', r)]) (JStr ''tok''))
           = Inr ?profile" for r
    by (simp add: github_profile_request_def request_def serve_def json_ok_def parse_body_def
                  Let_def)
  have n: "\<not> nullish ?profile" and e: "\<not> truthy (get ?profile ''email'')"
    by simp_all
  have m: "snd (github_emails_request
                  (serve [(''https://api.github.com/user'', json_ok ?profile),
                          (''https://api.github.com/user/emails'', json_ok (JArr es))])
                  (JStr ''tok'')) = Inr (JArr es)" for es
    by (simp add: github_emails_request_def request_def serve_def json_ok_def parse_body_def
                  Let_def)
  have m4: "snd (github_emails_request
                  (serve [(''https://api.github.com/user'', json_ok ?profile),
                          (''https://api.github.com/user/emails'',
                           json_status 403 (JObj [(''message'', JStr ''Forbidden'')]))])
                  (JStr ''tok'')) = Inl ?err"
    by (simp add: github_emails_request_def request_def serve_def json_status_def parse_body_def
                  Let_def new_OAuthError_def js_or_def)
  have entries: "\<forall>e \<in> set ?es1. email_entry e" "\<forall>e \<in> set ?es2. email_entry e"
      "\<forall>e \<in> set ?es3. email_entry e"
    by (simp_all add: email_entry_def)
  have pref: "preferred_email ?es1 = JStr ''me@example.com''"
      "preferred_email ?es2 = JStr ''old@example.com''"
      "preferred_email ?es3 = JNull"
    by (simp_all add: preferred_email_def marked_primary_verified_def marked_verified_def)
  from github_email_resolution[OF p n e, of "json_ok (JArr ?es1)"]
       github_email_resolution[OF p n e, of "json_ok (JArr ?es2)"]
       github_email_resolution[OF p n e, of "json_ok (JArr ?es3)"]
       github_email_resolution[OF p n e,
         of "json_status 403 (JObj [(''message'', JStr ''Forbidden'')])"]
       m[of ?es1] m[of ?es2] m[of ?es3] m4 entries pref
  show ?thesis
    by simp
qed

section \<open>The redirect URL\<close>

lemma redirect_params_scope:
  "usp_get (redirect_params inst opts) ''scope'' =
     JStr (join '' '' (case opt_scopes opts of Some s \<Rightarrow> s | None \<Rightarrow> scopes inst))"
  by (simp add: redirect_params_def addAuthParams_def usp_get_def Let_def)

lemma new_provider_scopes:
  "new_provider v cfg = Inr inst \<Longrightarrow>
   variant inst = v
   \<and> scopes inst = (case cfg_scopes cfg of Some s \<Rightarrow> s | None \<Rightarrow> defaultScopes v)"
  by (auto simp: new_provider_def split: if_splits)

lemma defaultScopes_nonempty: "defaultScopes v \<noteq> []"
  by (cases v) simp_all

text \<open>
  Claim C5, as amended. For every constructed provider instance and every call of
  \<^verbatim>\<open>getRedirectUrl\<close>, the \<open>scope\<close> parameter of the URL is the space-joined per-call
  override when one is given, otherwise the space-joined configured scopes, which are
  the variant's defaults when the configuration gives none. An empty array, as the
  override or in the configuration, is used as it is; the scope list is non-empty
  whenever neither of them is an empty array.
\<close>

theorem getRedirectUrl_scope:
  assumes "new_provider v cfg = Inr inst"
  shows "getRedirectUrl inst opts =
           authorizationUrl v @ ''?'' @ usp_toString (redirect_params inst opts)
         \<and> usp_get (redirect_params inst opts) ''scope'' =
             JStr (join '' '' (requested_scopes v cfg opts))
         \<and> (opt_scopes opts \<noteq> Some [] \<and> cfg_scopes cfg \<noteq> Some [] \<longrightarrow>
              requested_scopes v cfg opts \<noteq> [])
         \<and> (opt_scopes opts = None \<and> cfg_scopes cfg = None \<longrightarrow>
              requested_scopes v cfg opts = defaultScopes v)"
  using new_provider_scopes[OF assms] defaultScopes_nonempty[of v]
  by (auto simp: getRedirectUrl_def redirect_params_scope requested_scopes_def
           split: option.splits)

theorem getRedirectUrl_scope_witness:
  "getRedirectUrl (example_provider GitHub) no_options =
     ''https://github.com/login/oauth/authorize?client_id=client-1&redirect_uri=http%3A%2F%2Flocalhost%3A3000%2Fcb&response_type=code&scope=read%3Auser+user%3Aemail''
   \<and> usp_get (redirect_params (example_provider GitHub) no_options) ''scope'' =
       JStr ''read:user user:email''
   \<and> usp_get (redirect_params (example_provider GitHub)
                 \<lparr> opt_scopes = Some [''a'', ''b''], opt_state = JStr ''xyz'' \<rparr>) ''scope'' =
       JStr ''a b''"
proof -
  have h: "new_provider GitHub example_config = Inr (example_provider GitHub)"
    by (simp add: new_provider_def example_config_def example_provider_def)
  have u: "usp_toString (redirect_params (example_provider GitHub) no_options) =
     ''client_id=client-1&redirect_uri=http%3A%2F%2Flocalhost%3A3000%2Fcb&response_type=code&scope=read%3Auser+user%3Aemail''"
    by (simp add: redirect_params_def addAuthParams_def example_provider_def no_options_def
                  usp_toString_def urlencode_def urlencode_char_def hex_digit_def Let_def)
  from getRedirectUrl_scope[OF h, of no_options]
       getRedirectUrl_scope[OF h, of "\<lparr> opt_scopes = Some [''a'', ''b''], opt_state = JStr ''xyz'' \<rparr>"]
       u
  show ?thesis
    by (simp add: requested_scopes_def example_config_def no_options_def)
qed

text \<open>
  The claim as stated fails: an instance configured with an empty array of scopes keeps
  it, and the \<open>scope\<close> parameter of its redirect URL is empty.
\<close>

theorem empty_scopes_counterexample:
  "new_provider Google (example_config\<lparr> cfg_scopes := Some [] \<rparr>) =
     Inr ((example_provider Google)\<lparr> scopes := [] \<rparr>)
   \<and> usp_get (redirect_params ((example_provider Google)\<lparr> scopes := [] \<rparr>) no_options) ''scope''
       = JStr []
   \<and> getRedirectUrl ((example_provider Google)\<lparr> scopes := [] \<rparr>) no_options =
       ''https://accounts.google.com/o/oauth2/v2/auth?client_id=client-1&redirect_uri=http%3A%2F%2Flocalhost%3A3000%2Fcb&response_type=code&scope=''"
  by (simp add: new_provider_def example_config_def example_provider_def getRedirectUrl_def
                redirect_params_def addAuthParams_def no_options_def usp_get_def
                usp_toString_def urlencode_def urlencode_char_def hex_digit_def Let_def)

end
